theory Spec2Isabelle
  imports Main "HOL-Library.Multiset" "HOL-Library.Char_ord" "HOL-Library.List_Lexorder"
    "HOL-Library.Product_Lexorder"
begin

section \<open>Data model\<close>

text \<open>
  The worker mirror of \<^verbatim>\<open>src/services/WorkersService.ts\<close>. A row of table
  \<^verbatim>\<open>workers\<close> is a \<^verbatim>\<open>WorkerRecord\<close>; the field \<^verbatim>\<open>id\<close> is written \<open>wid\<close>
  because \<open>id\<close> is the identity function of HOL. Nullable columns are options,
  timestamps and identifiers are strings.
\<close>

record WorkerRecord =
  wid :: string
  accountId :: string
  name :: string
  subdomain :: "string option"
  url :: "string option"
  scriptHash :: "string option"
  createdOn :: "string option"
  modifiedOn :: "string option"
  lastSynced :: string

text \<open>
  A row of table \<^verbatim>\<open>accounts\<close> (\<^verbatim>\<open>mapAccountRow\<close>). The fields that share a name
  with a field of \<^verbatim>\<open>WorkerRecord\<close> carry the prefix \<open>acc_\<close>.
\<close>

record Account =
  acc_id :: string
  acc_name :: string
  authType :: string
  acc_accountId :: string
  apiToken :: "string option"
  authEmail :: "string option"
  authKey :: "string option"
  acc_subdomain :: "string option"
  status :: string
  lastCheck :: "string option"
  lastError :: "string option"
  createdAt :: string
  updatedAt :: string

text \<open>The database handle \<^verbatim>\<open>this.db\<close>: both tables, rows in storage order.\<close>

record Db =
  accounts :: "Account list"
  workers :: "WorkerRecord list"

text \<open>An element of the sequence that \<^verbatim>\<open>api.listWorkers()\<close> resolves to.\<close>

record CfWorker =
  cf_id :: string
  etag :: "string option"
  created_on :: "string option"
  modified_on :: "string option"

text \<open>
  The provider client \<^verbatim>\<open>CloudflareAPI\<close> is an external collaborator: a run of a
  service operation receives one outcome per call it makes, an error message
  (\<open>Inl\<close>, the \<^verbatim>\<open>message\<close> of the rejection) or a value. \<open>subdomainRejectsFirst\<close>
  says which of the two promises of \<^verbatim>\<open>Promise.all\<close> rejects first when both do.
\<close>

record Provider =
  api_listWorkers :: "string + CfWorker list"
  api_getSubdomain :: "string + string"
  subdomainRejectsFirst :: bool
  api_updateWorkerScript :: "string + unit"
  api_deleteWorker :: "string + unit"

text \<open>
  What one run of an operation reads from its environment: the provider's answers,
  the values of successive \<^verbatim>\<open>crypto.randomUUID()\<close> calls, and the value of
  \<^verbatim>\<open>CURRENT_TIMESTAMP\<close>.
\<close>

record Env =
  api :: Provider
  randomUUID :: "nat \<Rightarrow> string"
  CURRENT_TIMESTAMP :: string

text \<open>A request that changes the provider's state, as issued by an operation.\<close>

datatype RemoteCall =
  RemoteUpdate string string string
  | RemoteDelete string

section \<open>Storage statements\<close>

text \<open>\<^verbatim>\<open>SELECT * FROM accounts WHERE id = ?\<close> with \<^verbatim>\<open>.get\<close>: the first matching row.\<close>

definition hasAccountId :: "string \<Rightarrow> Account \<Rightarrow> bool" where
  "hasAccountId i a = (acc_id a = i)"

definition selectAccount :: "Db \<Rightarrow> string \<Rightarrow> Account option" where
  "selectAccount db i = find (hasAccountId i) (accounts db)"

text \<open>\<^verbatim>\<open>SELECT * FROM workers WHERE name = ? AND account_id = ?\<close> with \<^verbatim>\<open>.get\<close>.\<close>

definition isWorker :: "string \<Rightarrow> string \<Rightarrow> WorkerRecord \<Rightarrow> bool" where
  "isWorker workerName i w = (name w = workerName \<and> accountId w = i)"

definition selectWorker :: "Db \<Rightarrow> string \<Rightarrow> string \<Rightarrow> WorkerRecord option" where
  "selectWorker db workerName i = find (isWorker workerName i) (workers db)"

text \<open>\<^verbatim>\<open>DELETE FROM workers WHERE account_id = ?\<close>\<close>

definition notOfAccount :: "string \<Rightarrow> WorkerRecord \<Rightarrow> bool" where
  "notOfAccount i w = (accountId w \<noteq> i)"

definition ofAccount :: "string \<Rightarrow> WorkerRecord \<Rightarrow> bool" where
  "ofAccount i w = (accountId w = i)"

definition deleteStmt :: "string \<Rightarrow> WorkerRecord list \<Rightarrow> WorkerRecord list" where
  "deleteStmt i tbl = filter (notOfAccount i) tbl"

text \<open>
  Modelled from the spec: the schema of table \<^verbatim>\<open>workers\<close> (\<^verbatim>\<open>db/schema\<close> is not
  among the sources). The spec gives \<^verbatim>\<open>workers(id PK, account_id FK, name, ...)\<close>:
  an insert whose \<^verbatim>\<open>id\<close> is already in the table violates the primary key and
  the statement throws. The foreign key always holds where the service inserts,
  since the account row was read from the same database.
\<close>

definition insertStmt :: "WorkerRecord \<Rightarrow> WorkerRecord list \<Rightarrow> string + WorkerRecord list" where
  "insertStmt r tbl =
     (if wid r \<in> set (map wid tbl) then Inl ''UNIQUE constraint failed: workers.id''
      else Inr (tbl @ [r]))"

text \<open>\<^verbatim>\<open>x || null\<close> on an optional string: the empty string is falsy.\<close>

definition orNull :: "string option \<Rightarrow> string option" where
  "orNull x = (case x of None \<Rightarrow> None | Some s \<Rightarrow> if s = [] then None else Some s)"

text \<open>The row that one iteration of the insert loop binds to \<^verbatim>\<open>insertStmt\<close>.\<close>

definition newRow :: "string \<Rightarrow> string \<Rightarrow> string \<Rightarrow> string \<Rightarrow> CfWorker \<Rightarrow> WorkerRecord" where
  "newRow workerId i sub now worker =
     \<lparr> wid = workerId, accountId = i, name = cf_id worker, subdomain = Some sub,
       url = Some (''https://'' @ cf_id worker @ ''.'' @ sub @ ''.workers.dev''),
       scriptHash = orNull (etag worker), createdOn = orNull (created_on worker),
       modifiedOn = orNull (modified_on worker), lastSynced = now \<rparr>"

text \<open>
  The body of the function given to \<^verbatim>\<open>this.db.transaction\<close>: one insert per fetched
  worker, the \<open>k\<close>-th with the \<open>k\<close>-th generated identifier; the first statement
  that throws ends the loop.
\<close>

fun insertLoop ::
  "string \<Rightarrow> string \<Rightarrow> string \<Rightarrow> (nat \<Rightarrow> string) \<Rightarrow> nat \<Rightarrow> CfWorker list \<Rightarrow> WorkerRecord list
     \<Rightarrow> string + WorkerRecord list" where
  "insertLoop i sub now gen k [] tbl = Inr tbl"
| "insertLoop i sub now gen k (worker # rest) tbl =
     (case insertStmt (newRow (gen k) i sub now worker) tbl of
        Inl e \<Rightarrow> Inl e
      | Inr tbl' \<Rightarrow> insertLoop i sub now gen (Suc k) rest tbl')"

text \<open>
  \<^verbatim>\<open>db.transaction(f)\<close>: runs \<open>f\<close> on the table; when \<open>f\<close> throws, the table is
  rolled back to its state at the start of the transaction and the error is rethrown.
\<close>

definition transaction ::
  "(WorkerRecord list \<Rightarrow> string + WorkerRecord list) \<Rightarrow> WorkerRecord list
     \<Rightarrow> (string + unit) \<times> WorkerRecord list" where
  "transaction f tbl = (case f tbl of Inl e \<Rightarrow> (Inl e, tbl) | Inr tbl' \<Rightarrow> (Inr (), tbl'))"

text \<open>\<^verbatim>\<open>UPDATE accounts SET subdomain = ?, last_check = CURRENT_TIMESTAMP WHERE id = ?\<close>\<close>

definition stampAccount :: "string \<Rightarrow> string \<Rightarrow> string \<Rightarrow> Account \<Rightarrow> Account" where
  "stampAccount i sub now a =
     (if acc_id a = i then a\<lparr>acc_subdomain := Some sub, lastCheck := Some now\<rparr> else a)"

definition updateAccount :: "string \<Rightarrow> string \<Rightarrow> string \<Rightarrow> Account list \<Rightarrow> Account list" where
  "updateAccount i sub now tbl = map (stampAccount i sub now) tbl"

section \<open>syncAccountWorkers\<close>

text \<open>
  \<^verbatim>\<open>Promise.all([api.listWorkers(), api.getSubdomain()])\<close>: both values, or the
  message of the promise that rejects first.
\<close>

definition promiseAll :: "Provider \<Rightarrow> string + (CfWorker list \<times> string)" where
  "promiseAll p =
     (case (api_listWorkers p, api_getSubdomain p) of
        (Inr ws, Inr sub) \<Rightarrow> Inr (ws, sub)
      | (Inl e, Inr sub) \<Rightarrow> Inl e
      | (Inr ws, Inl e) \<Rightarrow> Inl e
      | (Inl e1, Inl e2) \<Rightarrow> Inl (if subdomainRejectsFirst p then e2 else e1))"

text \<open>The message of the \<^verbatim>\<open>catch\<close> block of \<^verbatim>\<open>syncAccountWorkers\<close>.\<close>

definition syncFailed :: "string \<Rightarrow> string \<Rightarrow> string" where
  "syncFailed i msg = ''Failed to sync workers for account '' @ i @ '': '' @ msg"

definition accountNotFound :: "string \<Rightarrow> string" where
  "accountNotFound i = ''Account '' @ i @ '' not found''"

text \<open>
  \<^verbatim>\<open>syncAccountWorkers(accountId)\<close>: the thrown error's message or the returned
  count, and the database the call leaves behind. The \<^verbatim>\<open>DELETE\<close> statement runs
  on its own, before the transaction that holds the inserts; a response of length 0
  returns after the \<^verbatim>\<open>DELETE\<close>.
\<close>

definition syncAccountWorkers :: "Env \<Rightarrow> Db \<Rightarrow> string \<Rightarrow> (string + nat) \<times> Db" where
  "syncAccountWorkers env db i =
     (case selectAccount db i of
        None \<Rightarrow> (Inl (accountNotFound i), db)
      | Some account \<Rightarrow>
          (case promiseAll (api env) of
             Inl msg \<Rightarrow> (Inl (syncFailed i msg), db)
           | Inr (ws, sub) \<Rightarrow>
               let db1 = db\<lparr>workers := deleteStmt i (workers db)\<rparr> in
               if length ws = 0 then (Inr 0, db1)
               else
                 (case transaction
                         (insertLoop i sub (CURRENT_TIMESTAMP env) (randomUUID env) 0 ws)
                         (workers db1) of
                    (Inl msg, tbl) \<Rightarrow> (Inl (syncFailed i msg), db1\<lparr>workers := tbl\<rparr>)
                  | (Inr u, tbl) \<Rightarrow>
                      (Inr (length ws),
                       db1\<lparr>workers := tbl,
                           accounts :=
                             updateAccount i sub (CURRENT_TIMESTAMP env) (accounts db1)\<rparr>))))"

section \<open>syncMultipleAccounts\<close>

text \<open>A value of the result object: \<^verbatim>\<open>number | string\<close>.\<close>

datatype ResultValue = Count nat | Message string

type_synonym Results = "string \<rightharpoonup> ResultValue"

text \<open>
  \<^verbatim>\<open>results[accountId] = value\<close> on the object created by the literal \<^verbatim>\<open>{}\<close>.
  Such an object inherits the accessor \<^verbatim>\<open>__proto__\<close> of \<^verbatim>\<open>Object.prototype\<close>:
  an assignment under the key \<^verbatim>\<open>__proto__\<close> runs that setter, which ignores a value
  that is neither an object nor \<^verbatim>\<open>null\<close> (here it is a number or a string) and
  creates no own property. Under every other key the assignment creates or
  overwrites the property.
\<close>

definition assign :: "Results \<Rightarrow> string \<Rightarrow> ResultValue \<Rightarrow> Results" where
  "assign results key v = (if key = ''__proto__'' then results else results(key \<mapsto> v))"

text \<open>What the \<^verbatim>\<open>try\<close>/\<^verbatim>\<open>catch\<close> of the loop body stores for one outcome.\<close>

definition outcomeValue :: "string + nat \<Rightarrow> ResultValue" where
  "outcomeValue r = (case r of Inr n \<Rightarrow> Count n | Inl msg \<Rightarrow> Message (''Error: '' @ msg))"

text \<open>
  The \<^verbatim>\<open>for\<close> loop of \<^verbatim>\<open>syncMultipleAccounts\<close>. Each iteration awaits its sync before
  the next one starts, so the database a sync leaves behind is the one the next sync
  receives; \<open>envs k\<close> is the environment of the \<open>k\<close>-th iteration.
\<close>

fun syncLoop :: "(nat \<Rightarrow> Env) \<Rightarrow> nat \<Rightarrow> string list \<Rightarrow> Results \<times> Db \<Rightarrow> Results \<times> Db" where
  "syncLoop envs k [] (results, db) = (results, db)"
| "syncLoop envs k (i # rest) (results, db) =
     (case syncAccountWorkers (envs k) db i of
        (r, db') \<Rightarrow> syncLoop envs (Suc k) rest (assign results i (outcomeValue r), db'))"

definition syncMultipleAccounts :: "(nat \<Rightarrow> Env) \<Rightarrow> Db \<Rightarrow> string list \<Rightarrow> Results \<times> Db" where
  "syncMultipleAccounts envs db accountIds = syncLoop envs 0 accountIds (Map.empty, db)"

section \<open>getWorkers\<close>

definition orderKey :: "WorkerRecord \<Rightarrow> string \<times> string" where
  "orderKey w = (accountId w, name w)"

definition inAccounts :: "string list \<Rightarrow> WorkerRecord \<Rightarrow> bool" where
  "inAccounts ids w = (accountId w \<in> set ids)"

text \<open>
  \<^verbatim>\<open>getWorkers(accountIds?)\<close>: the \<^verbatim>\<open>WHERE account_id IN (...)\<close> clause is added only
  when the argument is given and has at least one element; \<^verbatim>\<open>ORDER BY account_id, name\<close>
  compares strings bytewise, rows with equal keys stay in storage order.
\<close>

definition getWorkers :: "Db \<Rightarrow> string list option \<Rightarrow> WorkerRecord list" where
  "getWorkers db accountIds =
     sort_key orderKey
       (case accountIds of
          None \<Rightarrow> workers db
        | Some ids \<Rightarrow>
            if length ids > 0 then filter (inAccounts ids) (workers db) else workers db)"

section \<open>updateWorkerScript and deleteWorker\<close>

definition hasCfId :: "string \<Rightarrow> CfWorker \<Rightarrow> bool" where
  "hasCfId workerName w = (cf_id w = workerName)"

definition notInAccount :: "string \<Rightarrow> string \<Rightarrow> string" where
  "notInAccount workerName i = ''Worker '' @ workerName @ '' not found in account '' @ i"

definition notInCloudflare :: "string \<Rightarrow> string" where
  "notInCloudflare workerName = ''Worker '' @ workerName @ '' not found in Cloudflare''"

definition notInDatabase :: "string \<Rightarrow> string" where
  "notInDatabase workerName = ''Worker '' @ workerName @ '' not found in database''"

text \<open>
  \<^verbatim>\<open>UPDATE workers SET modified_on = CURRENT_TIMESTAMP, last_synced = CURRENT_TIMESTAMP
  WHERE id = ?\<close>
\<close>

definition stampWorker :: "string \<Rightarrow> string \<Rightarrow> WorkerRecord \<Rightarrow> WorkerRecord" where
  "stampWorker rowId now w =
     (if wid w = rowId then w\<lparr>modifiedOn := Some now, lastSynced := now\<rparr> else w)"

text \<open>
  \<^verbatim>\<open>updateWorkerScript(workerName, accountId, script)\<close>: the outcome, the database
  afterwards and the state-changing requests sent to the provider.
\<close>

definition updateWorkerScript ::
  "Env \<Rightarrow> Db \<Rightarrow> string \<Rightarrow> string \<Rightarrow> string \<Rightarrow> (string + unit) \<times> Db \<times> RemoteCall list" where
  "updateWorkerScript env db workerName i script =
     (case selectAccount db i of
        None \<Rightarrow> (Inl (accountNotFound i), db, [])
      | Some accountRow \<Rightarrow>
          (case selectWorker db workerName i of
             None \<Rightarrow> (Inl (notInAccount workerName i), db, [])
           | Some workerRow \<Rightarrow>
               (case api_listWorkers (api env) of
                  Inl msg \<Rightarrow> (Inl msg, db, [])
                | Inr ws \<Rightarrow>
                    (case find (hasCfId workerName) ws of
                       None \<Rightarrow> (Inl (notInCloudflare workerName), db, [])
                     | Some cfWorker \<Rightarrow>
                         (case api_updateWorkerScript (api env) of
                            Inl msg \<Rightarrow>
                              (Inl msg, db, [RemoteUpdate workerName workerName script])
                          | Inr u \<Rightarrow>
                              (Inr (),
                               db\<lparr>workers :=
                                     map (stampWorker (wid workerRow) (CURRENT_TIMESTAMP env))
                                       (workers db)\<rparr>,
                               [RemoteUpdate workerName workerName script]))))))"

text \<open>\<^verbatim>\<open>DELETE FROM workers WHERE id = ?\<close>\<close>

definition notRow :: "string \<Rightarrow> WorkerRecord \<Rightarrow> bool" where
  "notRow rowId w = (wid w \<noteq> rowId)"

definition deleteRow :: "string \<Rightarrow> Db \<Rightarrow> Db" where
  "deleteRow rowId db = db\<lparr>workers := filter (notRow rowId) (workers db)\<rparr>"

text \<open>
  \<^verbatim>\<open>deleteWorker(workerName, accountId)\<close>: the remote delete is requested only when
  the provider's list holds the worker; a rejected request throws before the local
  \<^verbatim>\<open>DELETE\<close> statement.
\<close>

definition deleteWorker ::
  "Env \<Rightarrow> Db \<Rightarrow> string \<Rightarrow> string \<Rightarrow> (string + unit) \<times> Db \<times> RemoteCall list" where
  "deleteWorker env db workerName i =
     (case selectAccount db i of
        None \<Rightarrow> (Inl (accountNotFound i), db, [])
      | Some accountRow \<Rightarrow>
          (case selectWorker db workerName i of
             None \<Rightarrow> (Inl (notInDatabase workerName), db, [])
           | Some workerRow \<Rightarrow>
               (case api_listWorkers (api env) of
                  Inl msg \<Rightarrow> (Inl msg, db, [])
                | Inr ws \<Rightarrow>
                    (case find (hasCfId workerName) ws of
                       None \<Rightarrow> (Inr (), deleteRow (wid workerRow) db, [])
                     | Some cfWorker \<Rightarrow>
                         (case api_deleteWorker (api env) of
                            Inl msg \<Rightarrow> (Inl msg, db, [RemoteDelete workerName])
                          | Inr u \<Rightarrow>
                              (Inr (), deleteRow (wid workerRow) db,
                               [RemoteDelete workerName]))))))"

section \<open>Example data\<close>

text \<open>
  Two accounts, A and C, with one mirrored worker each; identifiers are abbreviated.
  The rows are stored out of order, so that \<^verbatim>\<open>ORDER BY\<close> has something to do.
\<close>

definition accountA :: Account where
  "accountA =
     \<lparr> acc_id = ''A'', acc_name = ''alpha'', authType = ''token'', acc_accountId = ''cf-a'',
       apiToken = Some ''tok-a'', authEmail = None, authKey = None,
       acc_subdomain = Some ''old'', status = ''active'', lastCheck = None, lastError = None,
       createdAt = ''2024-01-01 00:00:00'', updatedAt = ''2024-01-01 00:00:00'' \<rparr>"

definition accountC :: Account where
  "accountC = accountA\<lparr>acc_id := ''C'', acc_name := ''gamma'', acc_accountId := ''cf-c''\<rparr>"

definition rowA :: WorkerRecord where
  "rowA =
     \<lparr> wid = ''u1'', accountId = ''A'', name = ''api'', subdomain = Some ''old'',
       url = Some ''https://api.old.workers.dev'', scriptHash = Some ''h1'',
       createdOn = None, modifiedOn = None, lastSynced = ''2024-01-02 00:00:00'' \<rparr>"

definition rowC :: WorkerRecord where
  "rowC = rowA\<lparr>wid := ''u2'', accountId := ''C'', name := ''edge''\<rparr>"

definition exampleDb :: Db where
  "exampleDb = \<lparr> accounts = [accountA, accountC], workers = [rowC, rowA] \<rparr>"

text \<open>A listed worker; its \<^verbatim>\<open>modified_on\<close> is the empty string, which \<^verbatim>\<open>|| null\<close> stores as NULL.\<close>

definition cfWorker :: "string \<Rightarrow> CfWorker" where
  "cfWorker n = \<lparr> cf_id = n, etag = Some ''e1'', created_on = None, modified_on = Some [] \<rparr>"

definition uuidOf :: "nat \<Rightarrow> string" where
  "uuidOf k = ''uuid-'' @ replicate k (CHR ''x'')"

definition providerOk :: "CfWorker list \<Rightarrow> Provider" where
  "providerOk ws =
     \<lparr> api_listWorkers = Inr ws, api_getSubdomain = Inr ''fresh'',
       subdomainRejectsFirst = False, api_updateWorkerScript = Inr (),
       api_deleteWorker = Inr () \<rparr>"

definition envOk :: "CfWorker list \<Rightarrow> Env" where
  "envOk ws =
     \<lparr> api = providerOk ws, randomUUID = uuidOf, CURRENT_TIMESTAMP = ''2024-02-01 00:00:00'' \<rparr>"

text \<open>Identifiers of which the second is already the primary key of \<open>rowC\<close>.\<close>

definition clashUuid :: "nat \<Rightarrow> string" where
  "clashUuid k = (if k = 0 then ''u3'' else ''u2'')"

definition laterUuid :: "nat \<Rightarrow> string" where
  "laterUuid k = uuidOf (k + 2)"

definition envClash :: Env where
  "envClash = (envOk [cfWorker ''api'', cfWorker ''web''])\<lparr>randomUUID := clashUuid\<rparr>"

definition envLater :: "CfWorker list \<Rightarrow> Env" where
  "envLater ws =
     (envOk ws)\<lparr>randomUUID := laterUuid, CURRENT_TIMESTAMP := ''2024-02-01 00:00:05''\<rparr>"

text \<open>A provider that lists the worker "api" and rejects the request to delete it.\<close>

definition envDeleteRejected :: Env where
  "envDeleteRejected =
     (envOk [cfWorker ''api''])
       \<lparr>api := (providerOk [cfWorker ''api''])\<lparr>api_deleteWorker := Inl ''Request timed out''\<rparr>\<rparr>"

definition threeEnvs :: "nat \<Rightarrow> Env" where
  "threeEnvs k = envOk [cfWorker ''api'', cfWorker ''web'', cfWorker ''cron'']"

definition envTwo :: Env where
  "envTwo = envOk [cfWorker ''api'', cfWorker ''web'']"

definition accountSynced :: Account where
  "accountSynced = accountA\<lparr>acc_subdomain := Some ''fresh'', lastCheck := Some ''2024-02-01 00:00:00''\<rparr>"

text \<open>The example database after a sync of account A with \<open>envTwo\<close>.\<close>

definition afterFirstSync :: Db where
  "afterFirstSync =
     \<lparr> accounts = [accountSynced, accountC],
       workers = [rowC,
         newRow ''uuid-'' ''A'' ''fresh'' ''2024-02-01 00:00:00'' (cfWorker ''api''),
         newRow ''uuid-x'' ''A'' ''fresh'' ''2024-02-01 00:00:00'' (cfWorker ''web'')] \<rparr>"

text \<open>The same after a second sync, with \<open>envLater\<close> and the same provider response.\<close>

definition afterSecondSync :: Db where
  "afterSecondSync =
     \<lparr> accounts = [accountSynced\<lparr>lastCheck := Some ''2024-02-01 00:00:05''\<rparr>, accountC],
       workers = [rowC,
         newRow ''uuid-xx'' ''A'' ''fresh'' ''2024-02-01 00:00:05'' (cfWorker ''api''),
         newRow ''uuid-xxx'' ''A'' ''fresh'' ''2024-02-01 00:00:05'' (cfWorker ''web'')] \<rparr>"

section \<open>Notions used in the statements\<close>

text \<open>The rows of one account, in storage order.\<close>

definition accountWorkers :: "string \<Rightarrow> Db \<Rightarrow> WorkerRecord list" where
  "accountWorkers i db = filter (ofAccount i) (workers db)"

text \<open>The rows of all other accounts, in storage order.\<close>

definition otherWorkers :: "string \<Rightarrow> Db \<Rightarrow> WorkerRecord list" where
  "otherWorkers i db = filter (notOfAccount i) (workers db)"

text \<open>The rows a sync inserts for a fetched list, the first with the \<open>k\<close>-th identifier.\<close>

fun newRows ::
  "string \<Rightarrow> string \<Rightarrow> string \<Rightarrow> (nat \<Rightarrow> string) \<Rightarrow> nat \<Rightarrow> CfWorker list \<Rightarrow> WorkerRecord list" where
  "newRows i sub now gen k [] = []"
| "newRows i sub now gen k (worker # rest) =
     newRow (gen k) i sub now worker # newRows i sub now gen (Suc k) rest"

definition nameUrl :: "WorkerRecord \<Rightarrow> string \<times> string option" where
  "nameUrl w = (name w, url w)"

text \<open>The primary key of table \<^verbatim>\<open>workers\<close>: no two rows share an \<^verbatim>\<open>id\<close>.\<close>

definition primaryKey :: "Db \<Rightarrow> bool" where
  "primaryKey db = distinct (map wid (workers db))"

text \<open>\<^verbatim>\<open>ORDER BY account_id, name\<close>: the place of one row relative to a later one.\<close>

definition precedes :: "WorkerRecord \<Rightarrow> WorkerRecord \<Rightarrow> bool" where
  "precedes v w = (accountId v < accountId w \<or> (accountId v = accountId w \<and> name v \<le> name w))"

section \<open>Evaluation of the examples\<close>

lemmas example_defs =
  accountA_def accountC_def accountSynced_def rowA_def rowC_def exampleDb_def cfWorker_def
  uuidOf_def laterUuid_def clashUuid_def providerOk_def envOk_def envTwo_def envClash_def
  envLater_def envDeleteRejected_def threeEnvs_def afterFirstSync_def
  afterSecondSync_def

lemmas storage_defs =
  selectAccount_def hasAccountId_def selectWorker_def isWorker_def deleteStmt_def
  notOfAccount_def ofAccount_def insertStmt_def orNull_def newRow_def transaction_def
  stampAccount_def updateAccount_def promiseAll_def syncFailed_def accountNotFound_def
  accountWorkers_def otherWorkers_def

lemma example_account: "selectAccount exampleDb ''A'' = Some accountA"
  by (simp add: example_defs storage_defs)

lemma example_worker: "selectWorker exampleDb ''api'' ''A'' = Some rowA"
  by (simp add: example_defs storage_defs)

lemma example_primaryKey: "primaryKey exampleDb"
  by (simp add: primaryKey_def example_defs)

lemma run_two: "syncAccountWorkers envTwo exampleDb ''A'' = (Inr 2, afterFirstSync)"
  by (simp add: syncAccountWorkers_def example_defs storage_defs)

lemma run_again:
  "syncAccountWorkers (envLater [cfWorker ''api'', cfWorker ''web'']) afterFirstSync ''A''
     = (Inr 2, afterSecondSync)"
  by (simp add: syncAccountWorkers_def example_defs storage_defs)

lemma run_empty:
  "syncAccountWorkers (envOk []) exampleDb ''A'' = (Inr 0, exampleDb\<lparr>workers := [rowC]\<rparr>)"
  by (simp add: syncAccountWorkers_def example_defs storage_defs)

section \<open>Unknown accounts\<close>

lemma selectAccount_None_iff: "selectAccount db i = None \<longleftrightarrow> i \<notin> set (map acc_id (accounts db))"
  by (auto simp: selectAccount_def hasAccountId_def find_None_iff)

text \<open>
  C10. For an accountId that no row of table accounts carries, syncAccountWorkers throws
  the error "Account <id> not found" and returns the database as it received it: neither
  the workers table nor the accounts table is changed.
\<close>

theorem sync_unknown_account:
  assumes "i \<notin> set (map acc_id (accounts db))"
  shows "syncAccountWorkers env db i = (Inl (''Account '' @ i @ '' not found''), db)"
  using assms selectAccount_None_iff [of db i]
  by (simp add: syncAccountWorkers_def accountNotFound_def)

text \<open>The example database has no account Z.\<close>

theorem sync_unknown_account_witness:
  "''Z'' \<notin> set (map acc_id (accounts exampleDb))
   \<and> syncAccountWorkers envTwo exampleDb ''Z'' = (Inl ''Account Z not found'', exampleDb)"
proof -
  have h: "''Z'' \<notin> set (map acc_id (accounts exampleDb))"
    by (simp add: example_defs)
  from sync_unknown_account [OF h, of envTwo] h show ?thesis by simp
qed

section \<open>The rows a sync leaves behind\<close>

lemma insertLoop_Inr:
  "insertLoop i sub now gen k ws tbl = Inr tbl' \<Longrightarrow> tbl' = tbl @ newRows i sub now gen k ws"
proof (induction ws arbitrary: k tbl)
  case Nil
  then show ?case by simp
next
  case (Cons worker rest)
  from Cons.prems
  have tail: "insertLoop i sub now gen (Suc k) rest (tbl @ [newRow (gen k) i sub now worker]) = Inr tbl'"
    by (auto simp: insertStmt_def split: if_splits)
  from Cons.IH [OF tail] show ?case by simp
qed

lemma ofAccount_newRows:
  "filter (ofAccount i) (newRows i sub now gen k ws) = newRows i sub now gen k ws"
  by (induction ws arbitrary: k) (simp_all add: ofAccount_def newRow_def)

lemma notOfAccount_newRows: "filter (notOfAccount i) (newRows i sub now gen k ws) = []"
  by (induction ws arbitrary: k) (simp_all add: notOfAccount_def newRow_def)

lemma ofAccount_delete: "filter (ofAccount i) (deleteStmt i tbl) = []"
  by (induction tbl) (simp_all add: deleteStmt_def ofAccount_def notOfAccount_def)

lemma notOfAccount_delete:
  "filter (notOfAccount i) (deleteStmt i tbl) = filter (notOfAccount i) tbl"
  by (simp add: deleteStmt_def)

lemma name_newRows: "map name (newRows i sub now gen k ws) = map cf_id ws"
  by (induction ws arbitrary: k) (simp_all add: newRow_def)

lemma length_newRows: "length (newRows i sub now gen k ws) = length ws"
  by (induction ws arbitrary: k) simp_all

lemma nameUrl_newRows:
  "map nameUrl (newRows i sub now gen k ws) = map nameUrl (newRows i sub now' gen' k' ws)"
  by (induction ws arbitrary: k k') (simp_all add: newRow_def nameUrl_def)

lemma promiseAll_Inr:
  "promiseAll p = Inr (ws, sub) \<longleftrightarrow> api_listWorkers p = Inr ws \<and> api_getSubdomain p = Inr sub"
  by (auto simp: promiseAll_def split: sum.splits)

text \<open>What a sync that returns a count has read and written.\<close>

lemma sync_success:
  assumes "syncAccountWorkers env db i = (Inr n, db')"
  shows "\<exists>ws sub. api_listWorkers (api env) = Inr ws \<and> api_getSubdomain (api env) = Inr sub
           \<and> n = length ws
           \<and> workers db' = deleteStmt i (workers db)
                @ newRows i sub (CURRENT_TIMESTAMP env) (randomUUID env) 0 ws
           \<and> accounts db' = (if ws = [] then accounts db
                else updateAccount i sub (CURRENT_TIMESTAMP env) (accounts db))"
  using assms
  by (auto simp: syncAccountWorkers_def Let_def transaction_def promiseAll_Inr
      split: option.splits sum.splits prod.splits if_splits dest!: insertLoop_Inr)

lemma sync_accountWorkers:
  assumes "syncAccountWorkers env db i = (Inr n, db')"
    and "api_listWorkers (api env) = Inr ws" and "api_getSubdomain (api env) = Inr sub"
  shows "accountWorkers i db' = newRows i sub (CURRENT_TIMESTAMP env) (randomUUID env) 0 ws"
    and "otherWorkers i db' = otherWorkers i db"
    and "n = length ws"
  using sync_success [OF assms(1)] assms(2,3)
  by (auto simp: accountWorkers_def otherWorkers_def ofAccount_newRows ofAccount_delete
      notOfAccount_newRows notOfAccount_delete)

lemma sync_empty:
  assumes "selectAccount db i = Some a"
    and "api_listWorkers (api env) = Inr []" and "api_getSubdomain (api env) = Inr sub"
  shows "syncAccountWorkers env db i = (Inr 0, db\<lparr>workers := deleteStmt i (workers db)\<rparr>)"
  using assms by (simp add: syncAccountWorkers_def promiseAll_def)

text \<open>
  C2. For an account of the store and a provider response of zero or more workers (the
  list and the subdomain both fetched): a response of length 0 makes syncAccountWorkers
  return 0, not an error, with the account's prior rows deleted and nothing inserted; and
  whenever syncAccountWorkers returns a count, the count is the number of fetched workers,
  the account's rows are exactly the rows built from the response, one per fetched worker
  and in its order, so their names are the provider's names and no earlier row is left,
  and the rows of the other accounts are untouched.
\<close>

theorem sync_mirrors_provider:
  assumes "selectAccount db i = Some a"
    and "api_listWorkers (api env) = Inr ws" and "api_getSubdomain (api env) = Inr sub"
  shows "(ws = [] \<longrightarrow>
            syncAccountWorkers env db i
              = (Inr 0, db\<lparr>workers := deleteStmt i (workers db)\<rparr>)
            \<and> accountWorkers i (snd (syncAccountWorkers env db i)) = [])
       \<and> (\<forall>n db'. syncAccountWorkers env db i = (Inr n, db') \<longrightarrow>
            n = length ws
            \<and> accountWorkers i db'
                = newRows i sub (CURRENT_TIMESTAMP env) (randomUUID env) 0 ws
            \<and> map name (accountWorkers i db') = map cf_id ws
            \<and> otherWorkers i db' = otherWorkers i db)"
proof (intro conjI impI allI)
  assume "ws = []"
  with assms show e: "syncAccountWorkers env db i
      = (Inr 0, db\<lparr>workers := deleteStmt i (workers db)\<rparr>)"
    by (simp add: sync_empty)
  show "accountWorkers i (snd (syncAccountWorkers env db i)) = []"
    by (simp add: e accountWorkers_def ofAccount_delete)
next
  fix n db' assume s: "syncAccountWorkers env db i = (Inr n, db')"
  show "n = length ws" by (rule sync_accountWorkers(3) [OF s assms(2,3)])
  show r: "accountWorkers i db' = newRows i sub (CURRENT_TIMESTAMP env) (randomUUID env) 0 ws"
    by (rule sync_accountWorkers(1) [OF s assms(2,3)])
  show "map name (accountWorkers i db') = map cf_id ws"
    by (simp add: r name_newRows)
  show "otherWorkers i db' = otherWorkers i db"
    by (rule sync_accountWorkers(2) [OF s assms(2,3)])
qed

text \<open>Account A of the example, with a response of two workers.\<close>

theorem sync_mirrors_provider_witness:
  "selectAccount exampleDb ''A'' = Some accountA
   \<and> api_listWorkers (api envTwo) = Inr [cfWorker ''api'', cfWorker ''web'']
   \<and> api_getSubdomain (api envTwo) = Inr ''fresh''
   \<and> syncAccountWorkers envTwo exampleDb ''A'' = (Inr 2, afterFirstSync)
   \<and> map name (accountWorkers ''A'' afterFirstSync) = [''api'', ''web'']
   \<and> otherWorkers ''A'' afterFirstSync = [rowC]"
proof -
  have l: "api_listWorkers (api envTwo) = Inr [cfWorker ''api'', cfWorker ''web'']"
    and s: "api_getSubdomain (api envTwo) = Inr ''fresh''"
    by (simp_all add: envTwo_def envOk_def providerOk_def)
  have o: "otherWorkers ''A'' exampleDb = [rowC]"
    by (simp add: example_defs storage_defs)
  from sync_mirrors_provider [OF example_account l s] run_two
  have "map name (accountWorkers ''A'' afterFirstSync) = [''api'', ''web'']
      \<and> otherWorkers ''A'' afterFirstSync = [rowC]"
    by (simp add: o newRow_def cfWorker_def)
  with example_account l s run_two show ?thesis by simp
qed

text \<open>
  C6. When syncAccountWorkers returns a count and, run again at once on the database it
  left with the same provider response (same worker list, same subdomain), returns a count
  again, the account has the same number of rows after the second run as after the first,
  with the same (name, url) pairs in the same order, and both runs return the same count.
\<close>

theorem resync_idempotent:
  assumes "syncAccountWorkers env1 db i = (Inr n1, db1)"
    and "syncAccountWorkers env2 db1 i = (Inr n2, db2)"
    and "api_listWorkers (api env2) = api_listWorkers (api env1)"
    and "api_getSubdomain (api env2) = api_getSubdomain (api env1)"
  shows "length (accountWorkers i db2) = length (accountWorkers i db1)
       \<and> map nameUrl (accountWorkers i db2) = map nameUrl (accountWorkers i db1)
       \<and> n2 = n1"
proof -
  from sync_success [OF assms(1)] obtain ws sub where
    p: "api_listWorkers (api env1) = Inr ws" "api_getSubdomain (api env1) = Inr sub"
    by blast
  have r1: "accountWorkers i db1 = newRows i sub (CURRENT_TIMESTAMP env1) (randomUUID env1) 0 ws"
    and n1: "n1 = length ws"
    using sync_accountWorkers(1,3) [OF assms(1) p] by simp_all
  have r2: "accountWorkers i db2 = newRows i sub (CURRENT_TIMESTAMP env2) (randomUUID env2) 0 ws"
    and n2: "n2 = length ws"
    using sync_accountWorkers(1,3) [OF assms(2)] p assms(3,4) by simp_all
  have "map nameUrl (accountWorkers i db2) = map nameUrl (accountWorkers i db1)"
    unfolding r1 r2 by (rule nameUrl_newRows)
  then show ?thesis by (simp add: r1 r2 n1 n2 length_newRows)
qed

text \<open>
  Two runs on account A of the example; the second draws other identifiers and a later
  timestamp.
\<close>

theorem resync_idempotent_witness:
  "syncAccountWorkers envTwo exampleDb ''A'' = (Inr 2, afterFirstSync)
   \<and> syncAccountWorkers (envLater [cfWorker ''api'', cfWorker ''web'']) afterFirstSync ''A''
       = (Inr 2, afterSecondSync)
   \<and> length (accountWorkers ''A'' afterSecondSync) = 2
   \<and> map nameUrl (accountWorkers ''A'' afterSecondSync)
       = [(''api'', Some ''https://api.fresh.workers.dev''),
          (''web'', Some ''https://web.fresh.workers.dev'')]
   \<and> map wid (accountWorkers ''A'' afterSecondSync) \<noteq> map wid (accountWorkers ''A'' afterFirstSync)"
proof -
  have l: "api_listWorkers (api (envLater [cfWorker ''api'', cfWorker ''web'']))
      = api_listWorkers (api envTwo)"
    and s: "api_getSubdomain (api (envLater [cfWorker ''api'', cfWorker ''web'']))
      = api_getSubdomain (api envTwo)"
    by (simp_all add: envLater_def envTwo_def envOk_def)
  have f: "map nameUrl (accountWorkers ''A'' afterFirstSync)
      = [(''api'', Some ''https://api.fresh.workers.dev''),
         (''web'', Some ''https://web.fresh.workers.dev'')]"
    by (simp add: nameUrl_def example_defs storage_defs)
  have d: "map wid (accountWorkers ''A'' afterSecondSync)
      \<noteq> map wid (accountWorkers ''A'' afterFirstSync)"
    by (simp add: example_defs storage_defs)
  have n: "length (accountWorkers ''A'' afterFirstSync) = 2"
    by (simp add: example_defs storage_defs)
  from resync_idempotent [OF run_two run_again l s] f n
  have "length (accountWorkers ''A'' afterSecondSync) = 2
      \<and> map nameUrl (accountWorkers ''A'' afterSecondSync)
          = [(''api'', Some ''https://api.fresh.workers.dev''),
             (''web'', Some ''https://web.fresh.workers.dev'')]"
    by simp
  with run_two run_again d show ?thesis by simp
qed

section \<open>The account row after a sync\<close>

text \<open>A sync of at least one worker stamps the account row.\<close>

lemma sync_stamps_account:
  assumes "syncAccountWorkers env db i = (Inr n, db')" and "0 < n"
    and "api_getSubdomain (api env) = Inr sub"
  shows "accounts db' = updateAccount i sub (CURRENT_TIMESTAMP env) (accounts db)"
  using sync_success [OF assms(1)] assms(2,3) by auto

lemma find_stampAccount:
  "find (hasAccountId i) tbl = Some a \<Longrightarrow>
     find (hasAccountId i) (map (stampAccount i sub now) tbl)
       = Some (a\<lparr>acc_subdomain := Some sub, lastCheck := Some now\<rparr>)"
  by (induction tbl) (auto simp: hasAccountId_def stampAccount_def split: if_splits)

lemma stamped_account:
  assumes "selectAccount db i = Some a"
  shows "selectAccount (db\<lparr>accounts := updateAccount i sub now (accounts db)\<rparr>) i
    = Some (a\<lparr>acc_subdomain := Some sub, lastCheck := Some now\<rparr>)"
  using assms by (simp add: selectAccount_def updateAccount_def find_stampAccount)

text \<open>
  C3, at a response of length 0. The provider reports no workers and the subdomain
  "fresh" for account A of the example, whose row holds the subdomain "old" and no
  lastCheck. syncAccountWorkers returns 0 and the account row is the one it was: the
  \<^verbatim>\<open>return 0\<close> of the empty case comes before the \<^verbatim>\<open>UPDATE accounts\<close> statement.
\<close>

theorem sync_empty_skips_account_update:
  "api_listWorkers (api (envOk [])) = Inr []
   \<and> api_getSubdomain (api (envOk [])) = Inr ''fresh''
   \<and> fst (syncAccountWorkers (envOk []) exampleDb ''A'') = Inr 0
   \<and> selectAccount (snd (syncAccountWorkers (envOk []) exampleDb ''A'')) ''A'' = Some accountA
   \<and> acc_subdomain accountA = Some ''old''
   \<and> lastCheck accountA = None"
  by (simp add: run_empty) (simp add: example_defs storage_defs)

section \<open>A failed insert\<close>

text \<open>
  Whenever the account exists and both provider calls succeed, a sync that throws leaves
  the account without rows: the \<^verbatim>\<open>DELETE\<close> is not undone by the rollback of the inserts.
\<close>

lemma sync_insert_failure:
  assumes "selectAccount db i = Some a"
    and "api_listWorkers (api env) = Inr ws" and "api_getSubdomain (api env) = Inr sub"
    and "syncAccountWorkers env db i = (Inl msg, db')"
  shows "accountWorkers i db' = [] \<and> otherWorkers i db' = otherWorkers i db
       \<and> accounts db' = accounts db"
  using assms
  by (auto simp: syncAccountWorkers_def promiseAll_def Let_def transaction_def
      accountWorkers_def otherWorkers_def ofAccount_delete notOfAccount_delete
      split: sum.splits if_splits)

text \<open>
  C1, at an insert that fails. Account A of the example owns the row "api". The provider
  reports two workers; the identifier drawn for the second one is the primary key of a row
  of account C, so the second insert violates the primary key. syncAccountWorkers throws,
  the first insert is rolled back, and account A is left with no rows at all: the
  \<^verbatim>\<open>DELETE\<close> ran before the transaction began.
\<close>

theorem sync_failed_insert_loses_rows:
  "accountWorkers ''A'' exampleDb = [rowA]
   \<and> syncAccountWorkers envClash exampleDb ''A''
       = (Inl ''Failed to sync workers for account A: UNIQUE constraint failed: workers.id'',
          exampleDb\<lparr>workers := [rowC]\<rparr>)
   \<and> accountWorkers ''A'' (snd (syncAccountWorkers envClash exampleDb ''A'')) = []"
  by (simp add: syncAccountWorkers_def example_defs storage_defs)

section \<open>Reading the mirror\<close>

lemma precedes_orderKey: "precedes v w \<longleftrightarrow> orderKey v \<le> orderKey w"
  by (auto simp: precedes_def orderKey_def less_eq_prod_def)

lemma sorted_getWorkers: "sorted_wrt precedes (getWorkers db accountIds)"
proof -
  have "sorted (map orderKey (getWorkers db accountIds))"
    by (simp add: getWorkers_def)
  then show ?thesis
    by (simp add: sorted_map precedes_orderKey [abs_def])
qed

text \<open>
  C4 as stated fails at the empty filter list: the rows whose accountId is in the empty
  set are none, and getWorkers returns every row.
\<close>

theorem getWorkers_empty_filter_counterexample:
  "filter (inAccounts []) (workers exampleDb) = []
   \<and> getWorkers exampleDb (Some []) = [rowA, rowC]"
  by (simp add: getWorkers_def inAccounts_def orderKey_def example_defs)

text \<open>
  C4, amended. With no filter, and with the empty filter list, getWorkers returns all
  rows; with a filter list of at least one account id it returns exactly the rows whose
  accountId is in the list; in every case the result is ordered by (accountId, name)
  ascending, and a filter on one accountId that no row carries yields the empty sequence.
\<close>

theorem getWorkers_filter_order:
  "sorted_wrt precedes (getWorkers db accountIds)
   \<and> mset (getWorkers db None) = mset (workers db)
   \<and> mset (getWorkers db (Some [])) = mset (workers db)
   \<and> (ids \<noteq> [] \<longrightarrow>
        mset (getWorkers db (Some ids))
          = filter_mset (\<lambda>w. accountId w \<in> set ids) (mset (workers db)))
   \<and> (i \<notin> set (map accountId (workers db)) \<longrightarrow> getWorkers db (Some [i]) = [])"
proof (intro conjI impI)
  show "sorted_wrt precedes (getWorkers db accountIds)" by (rule sorted_getWorkers)
  show "mset (getWorkers db None) = mset (workers db)" by (simp add: getWorkers_def)
  show "mset (getWorkers db (Some [])) = mset (workers db)" by (simp add: getWorkers_def)
next
  assume "ids \<noteq> []"
  then show "mset (getWorkers db (Some ids))
      = filter_mset (\<lambda>w. accountId w \<in> set ids) (mset (workers db))"
    by (simp add: getWorkers_def inAccounts_def [abs_def])
next
  assume "i \<notin> set (map accountId (workers db))"
  then have "filter (inAccounts [i]) (workers db) = []"
    by (auto simp: filter_empty_conv inAccounts_def)
  then show "getWorkers db (Some [i]) = []" by (simp add: getWorkers_def)
qed

text \<open>The example database, filtered on both of its accounts and on an unknown one.\<close>

theorem getWorkers_filter_order_witness:
  "[''C'', ''A''] \<noteq> []
   \<and> ''Z'' \<notin> set (map accountId (workers exampleDb))
   \<and> workers exampleDb = [rowC, rowA]
   \<and> getWorkers exampleDb (Some [''C'', ''A'']) = [rowA, rowC]
   \<and> sorted_wrt precedes (getWorkers exampleDb (Some [''C'', ''A'']))
   \<and> mset (getWorkers exampleDb (Some [''C'', ''A''])) = mset (workers exampleDb)
   \<and> getWorkers exampleDb (Some [''Z'']) = []"
proof -
  have z: "''Z'' \<notin> set (map accountId (workers exampleDb))"
    by (simp add: example_defs)
  have f: "filter_mset (\<lambda>w. accountId w \<in> set [''C'', ''A'']) (mset (workers exampleDb))
      = mset (workers exampleDb)"
    by (simp add: example_defs)
  have g: "getWorkers exampleDb (Some [''C'', ''A'']) = [rowA, rowC]"
    by (simp add: getWorkers_def inAccounts_def orderKey_def example_defs)
  have w: "workers exampleDb = [rowC, rowA]" by (simp add: exampleDb_def)
  from getWorkers_filter_order [of exampleDb "Some [''C'', ''A'']" "[''C'', ''A'']" "''Z''"] z f
  have "sorted_wrt precedes (getWorkers exampleDb (Some [''C'', ''A'']))
      \<and> mset (getWorkers exampleDb (Some [''C'', ''A''])) = mset (workers exampleDb)
      \<and> getWorkers exampleDb (Some [''Z'']) = []"
    by simp
  with z g w show ?thesis by simp
qed

section \<open>The batch sync\<close>

text \<open>
  The loop is sequential: running it over \<open>xs @ ys\<close> is running it over \<open>xs\<close> and then
  over \<open>ys\<close> from the results and database that \<open>xs\<close> left, whatever happened to the
  accounts of \<open>xs\<close>.
\<close>

lemma syncLoop_append:
  "syncLoop envs k (xs @ ys) s = syncLoop envs (k + length xs) ys (syncLoop envs k xs s)"
proof (induction xs arbitrary: k s)
  case Nil
  show ?case by (cases s) simp
next
  case (Cons i rest)
  obtain results db where s: "s = (results, db)" by (cases s)
  obtain r db' where step: "syncAccountWorkers (envs k) db i = (r, db')"
    by (cases "syncAccountWorkers (envs k) db i")
  from Cons.IH [of "Suc k" "(assign results i (outcomeValue r), db')"]
  show ?case by (simp add: s step)
qed

text \<open>The keys of the result object: every requested id but \<^verbatim>\<open>__proto__\<close>.\<close>

lemma syncLoop_dom:
  "dom (fst (syncLoop envs k ids (results, db))) = dom results \<union> (set ids - {''__proto__''})"
proof (induction ids arbitrary: k results db)
  case Nil
  show ?case by simp
next
  case (Cons i rest)
  obtain r db' where step: "syncAccountWorkers (envs k) db i = (r, db')"
    by (cases "syncAccountWorkers (envs k) db i")
  from Cons.IH [of "Suc k" "assign results i (outcomeValue r)" db']
  show ?case by (auto simp: step assign_def)
qed

lemma syncMultipleAccounts_dom:
  "dom (fst (syncMultipleAccounts envs db ids)) = set ids - {''__proto__''}"
  by (simp add: syncMultipleAccounts_def syncLoop_dom)

text \<open>The value under a key is the outcome of the last sync requested for it.\<close>

lemma syncLoop_last:
  assumes "i \<noteq> ''__proto__''"
  shows "fst (syncLoop envs k (ids @ [i]) s) i
    = Some (outcomeValue
        (fst (syncAccountWorkers (envs (k + length ids)) (snd (syncLoop envs k ids s)) i)))"
proof -
  obtain results db where m: "syncLoop envs k ids s = (results, db)"
    by (cases "syncLoop envs k ids s")
  obtain r db' where step: "syncAccountWorkers (envs (k + length ids)) db i = (r, db')"
    by (cases "syncAccountWorkers (envs (k + length ids)) db i")
  from assms show ?thesis by (simp add: syncLoop_append m step assign_def)
qed

lemma outcome_unknown_account:
  assumes "i \<notin> set (map acc_id (accounts db))"
  shows "outcomeValue (fst (syncAccountWorkers env db i))
    = Message (''Error: Account '' @ i @ '' not found'')"
  using assms selectAccount_None_iff [of db i]
  by (simp add: syncAccountWorkers_def accountNotFound_def outcomeValue_def)

text \<open>
  The example of the specification: A syncs three workers, the lookup of B fails.
\<close>

lemma syncMultipleAccounts_A_B:
  "fst (syncMultipleAccounts threeEnvs exampleDb [''A'', ''B'']) ''A'' = Some (Count 3)
   \<and> fst (syncMultipleAccounts threeEnvs exampleDb [''A'', ''B'']) ''B''
       = Some (Message ''Error: Account B not found'')
   \<and> dom (fst (syncMultipleAccounts threeEnvs exampleDb [''A'', ''B''])) = {''A'', ''B''}"
proof (intro conjI)
  show "fst (syncMultipleAccounts threeEnvs exampleDb [''A'', ''B'']) ''A'' = Some (Count 3)"
    by (simp add: syncMultipleAccounts_def syncAccountWorkers_def assign_def outcomeValue_def
        example_defs storage_defs)
  show "fst (syncMultipleAccounts threeEnvs exampleDb [''A'', ''B'']) ''B''
      = Some (Message ''Error: Account B not found'')"
    by (simp add: syncMultipleAccounts_def syncAccountWorkers_def assign_def outcomeValue_def
        example_defs storage_defs)
  show "dom (fst (syncMultipleAccounts threeEnvs exampleDb [''A'', ''B''])) = {''A'', ''B''}"
    by (auto simp: syncMultipleAccounts_dom)
qed

text \<open>
  C5, at the requested id \<^verbatim>\<open>__proto__\<close>. The batch [A, \<^verbatim>\<open>__proto__\<close>] on the example
  database stores the count of A; the sync of \<^verbatim>\<open>__proto__\<close> throws (no such account) and
  the assignment of its message creates no property, so the returned object has the key
  A only.
\<close>

theorem syncMultipleAccounts_proto_key:
  "fst (syncMultipleAccounts threeEnvs exampleDb [''A'', ''__proto__'']) ''A'' = Some (Count 3)
   \<and> fst (syncMultipleAccounts threeEnvs exampleDb [''A'', ''__proto__'']) ''__proto__'' = None
   \<and> dom (fst (syncMultipleAccounts threeEnvs exampleDb [''A'', ''__proto__''])) = {''A''}"
proof (intro conjI)
  show "fst (syncMultipleAccounts threeEnvs exampleDb [''A'', ''__proto__'']) ''A''
      = Some (Count 3)"
    by (simp add: syncMultipleAccounts_def syncAccountWorkers_def assign_def outcomeValue_def
        example_defs storage_defs)
  show "fst (syncMultipleAccounts threeEnvs exampleDb [''A'', ''__proto__'']) ''__proto__''
      = None"
    by (simp add: syncMultipleAccounts_def syncAccountWorkers_def assign_def outcomeValue_def
        example_defs storage_defs)
  show "dom (fst (syncMultipleAccounts threeEnvs exampleDb [''A'', ''__proto__''])) = {''A''}"
    by (auto simp: syncMultipleAccounts_dom)
qed

section \<open>Deleting and updating one worker\<close>

lemma find_hasCfId_None: "find (hasCfId n) ws = None \<longleftrightarrow> n \<notin> set (map cf_id ws)"
  by (auto simp: find_None_iff hasCfId_def)

lemma selectWorker_Some:
  "selectWorker db n i = Some row \<Longrightarrow> row \<in> set (workers db) \<and> name row = n \<and> accountId row = i"
  by (auto simp: selectWorker_def isWorker_def find_Some_iff)

lemma deleteRow_absent: "row \<notin> set (workers (deleteRow (wid row) db))"
  by (simp add: deleteRow_def notRow_def)

text \<open>
  C7 as stated fails when the provider lists the worker and rejects the delete request:
  deleteWorker throws the provider's message and the local row stays.
\<close>

theorem deleteWorker_rejected_counterexample:
  "selectAccount exampleDb ''A'' = Some accountA
   \<and> selectWorker exampleDb ''api'' ''A'' = Some rowA
   \<and> api_listWorkers (api envDeleteRejected) = Inr [cfWorker ''api'']
   \<and> deleteWorker envDeleteRejected exampleDb ''api'' ''A''
       = (Inl ''Request timed out'', exampleDb, [RemoteDelete ''api''])"
  by (simp add: example_account example_worker)
    (simp add: deleteWorker_def hasCfId_def example_defs storage_defs)

text \<open>
  C7, amended. For an account of the store with a local row for the worker, and a provider
  that answers the listing: deleteWorker requests the remote delete exactly when the list
  holds the worker, and requests nothing else. When the list does not hold the worker, or
  the requested remote delete succeeds, deleteWorker deletes the local row and completes
  without an error. When the requested remote delete is rejected, deleteWorker throws the
  provider's message and leaves the database as it was.
\<close>

theorem deleteWorker_policy:
  assumes "selectAccount db i = Some a"
    and "selectWorker db workerName i = Some row"
    and "api_listWorkers (api env) = Inr ws"
  shows "snd (snd (deleteWorker env db workerName i))
           = (if workerName \<in> set (map cf_id ws) then [RemoteDelete workerName] else [])
       \<and> (workerName \<notin> set (map cf_id ws) \<or> api_deleteWorker (api env) = Inr () \<longrightarrow>
            fst (deleteWorker env db workerName i) = Inr ()
            \<and> fst (snd (deleteWorker env db workerName i)) = deleteRow (wid row) db
            \<and> row \<notin> set (workers (fst (snd (deleteWorker env db workerName i)))))
       \<and> (\<forall>msg. workerName \<in> set (map cf_id ws) \<and> api_deleteWorker (api env) = Inl msg \<longrightarrow>
            fst (deleteWorker env db workerName i) = Inl msg
            \<and> fst (snd (deleteWorker env db workerName i)) = db)"
proof (cases "find (hasCfId workerName) ws")
  case None
  then have "workerName \<notin> set (map cf_id ws)" by (simp add: find_hasCfId_None)
  moreover have "deleteWorker env db workerName i = (Inr (), deleteRow (wid row) db, [])"
    using assms None by (simp add: deleteWorker_def)
  ultimately show ?thesis by (simp add: deleteRow_absent)
next
  case (Some cfWorker)
  then have listed: "workerName \<in> set (map cf_id ws)"
    using find_hasCfId_None [of workerName ws] by auto
  show ?thesis
  proof (cases "api_deleteWorker (api env)")
    case (Inl msg)
    then have "deleteWorker env db workerName i = (Inl msg, db, [RemoteDelete workerName])"
      using assms Some by (simp add: deleteWorker_def)
    with listed Inl show ?thesis by simp
  next
    case (Inr u)
    then have "deleteWorker env db workerName i
        = (Inr (), deleteRow (wid row) db, [RemoteDelete workerName])"
      using assms Some by (simp add: deleteWorker_def)
    with listed Inr show ?thesis by (simp add: deleteRow_absent)
  qed
qed

text \<open>
  Worker "api" of account A in the example, once with a provider that no longer lists it
  and once with a provider that lists it and rejects the delete.
\<close>

theorem deleteWorker_policy_witness:
  "selectAccount exampleDb ''A'' = Some accountA
   \<and> selectWorker exampleDb ''api'' ''A'' = Some rowA
   \<and> api_listWorkers (api (envOk [cfWorker ''web''])) = Inr [cfWorker ''web'']
   \<and> ''api'' \<notin> set (map cf_id [cfWorker ''web''])
   \<and> deleteWorker (envOk [cfWorker ''web'']) exampleDb ''api'' ''A''
       = (Inr (), exampleDb\<lparr>workers := [rowC]\<rparr>, [])
   \<and> api_listWorkers (api envDeleteRejected) = Inr [cfWorker ''api'']
   \<and> ''api'' \<in> set (map cf_id [cfWorker ''api''])
   \<and> api_deleteWorker (api envDeleteRejected) = Inl ''Request timed out''
   \<and> deleteWorker envDeleteRejected exampleDb ''api'' ''A''
       = (Inl ''Request timed out'', exampleDb, [RemoteDelete ''api''])"
proof -
  have l1: "api_listWorkers (api (envOk [cfWorker ''web''])) = Inr [cfWorker ''web'']"
    by (simp add: envOk_def providerOk_def)
  have n1: "''api'' \<notin> set (map cf_id [cfWorker ''web''])"
    by (simp add: cfWorker_def)
  have d: "deleteRow (wid rowA) exampleDb = exampleDb\<lparr>workers := [rowC]\<rparr>"
    by (simp add: deleteRow_def notRow_def example_defs)
  have l2: "api_listWorkers (api envDeleteRejected) = Inr [cfWorker ''api'']"
    and r2: "api_deleteWorker (api envDeleteRejected) = Inl ''Request timed out''"
    by (simp_all add: envDeleteRejected_def envOk_def providerOk_def)
  have n2: "''api'' \<in> set (map cf_id [cfWorker ''api''])"
    by (simp add: cfWorker_def)
  from deleteWorker_policy [OF example_account example_worker l1] n1 d
  have one: "deleteWorker (envOk [cfWorker ''web'']) exampleDb ''api'' ''A''
      = (Inr (), exampleDb\<lparr>workers := [rowC]\<rparr>, [])"
    by (simp add: prod_eq_iff)
  from deleteWorker_policy [OF example_account example_worker l2] n2 r2
  have two: "deleteWorker envDeleteRejected exampleDb ''api'' ''A''
      = (Inl ''Request timed out'', exampleDb, [RemoteDelete ''api''])"
    by (simp add: prod_eq_iff)
  from example_account example_worker l1 n1 one l2 n2 r2 two show ?thesis by simp
qed

text \<open>The error of a worker that has no local row.\<close>

lemma update_local_miss:
  assumes "selectAccount db i = Some a" and "selectWorker db workerName i = None"
  shows "updateWorkerScript env db workerName i script
           = (Inl (''Worker '' @ workerName @ '' not found in account '' @ i), db, [])"
  using assms by (simp add: updateWorkerScript_def notInAccount_def)

text \<open>
  C8. For an account of the store with a local row for the worker, when the provider's
  list holds no worker of that name, updateWorkerScript throws "Worker <name> not found
  in Cloudflare", a message different from the one of a missing local row ("Worker <name>
  not found in account <id>"); it leaves the database as it was and sends no update to
  the provider.
\<close>

theorem update_provider_miss:
  assumes "selectAccount db i = Some a"
    and "selectWorker db workerName i = Some row"
    and "api_listWorkers (api env) = Inr ws"
    and "workerName \<notin> set (map cf_id ws)"
  shows "updateWorkerScript env db workerName i script
           = (Inl (''Worker '' @ workerName @ '' not found in Cloudflare''), db, [])
       \<and> ''Worker '' @ workerName @ '' not found in Cloudflare''
           \<noteq> ''Worker '' @ workerName @ '' not found in account '' @ i"
  using assms find_hasCfId_None [of workerName ws]
  by (simp add: updateWorkerScript_def notInCloudflare_def)

text \<open>Worker "api" of account A in the example; the provider lists "web" only.\<close>

theorem update_provider_miss_witness:
  "selectAccount exampleDb ''A'' = Some accountA
   \<and> selectWorker exampleDb ''api'' ''A'' = Some rowA
   \<and> api_listWorkers (api (envOk [cfWorker ''web''])) = Inr [cfWorker ''web'']
   \<and> ''api'' \<notin> set (map cf_id [cfWorker ''web''])
   \<and> updateWorkerScript (envOk [cfWorker ''web'']) exampleDb ''api'' ''A'' ''code''
       = (Inl ''Worker api not found in Cloudflare'', exampleDb, [])"
proof -
  have l: "api_listWorkers (api (envOk [cfWorker ''web''])) = Inr [cfWorker ''web'']"
    by (simp add: envOk_def providerOk_def)
  have n: "''api'' \<notin> set (map cf_id [cfWorker ''web''])"
    by (simp add: cfWorker_def)
  from update_provider_miss [OF example_account example_worker l n, of "''code''"]
    example_account example_worker l n
  show ?thesis by simp
qed

lemma stamp_single:
  assumes "distinct (map wid tbl)" and "row \<in> set tbl"
  shows "map (stampWorker (wid row) now) tbl
           = map (\<lambda>w. if w = row then row\<lparr>modifiedOn := Some now, lastSynced := now\<rparr> else w) tbl"
proof (rule map_cong [OF refl])
  fix w assume "w \<in> set tbl"
  with assms have "wid w = wid row \<longleftrightarrow> w = row"
    by (auto simp: distinct_map dest: inj_onD)
  then show "stampWorker (wid row) now w
      = (if w = row then row\<lparr>modifiedOn := Some now, lastSynced := now\<rparr> else w)"
    by (simp add: stampWorker_def)
qed

lemma scriptHash_stamp: "scriptHash (stampWorker rowId now w) = scriptHash w"
  by (simp add: stampWorker_def)

lemma update_success:
  assumes "updateWorkerScript env db workerName i script = (Inr (), db', calls)"
  shows "\<exists>row. selectWorker db workerName i = Some row
           \<and> db' = db\<lparr>workers := map (stampWorker (wid row) (CURRENT_TIMESTAMP env)) (workers db)\<rparr>
           \<and> calls = [RemoteUpdate workerName workerName script]"
  using assms
  by (auto simp: updateWorkerScript_def split: option.splits sum.splits)

text \<open>
  C9. When updateWorkerScript completes without an error on a workers table that respects
  its primary key, the table afterwards is the table before with one row replaced: the
  row found for (name, accountId), whose modifiedOn and lastSynced are now the
  current time and whose other fields, scriptHash among them, are as before. Every other
  row is unchanged, the accounts table is unchanged, and the only request sent to the
  provider is the update of that script.
\<close>

theorem update_stamps_single_row:
  assumes "updateWorkerScript env db workerName i script = (Inr (), db', calls)"
    and "primaryKey db"
  shows "\<exists>row. selectWorker db workerName i = Some row
           \<and> row \<in> set (workers db) \<and> name row = workerName \<and> accountId row = i
           \<and> workers db'
               = map (\<lambda>w. if w = row
                        then row\<lparr>modifiedOn := Some (CURRENT_TIMESTAMP env),
                                 lastSynced := CURRENT_TIMESTAMP env\<rparr>
                        else w) (workers db)
           \<and> map scriptHash (workers db') = map scriptHash (workers db)
           \<and> accounts db' = accounts db
           \<and> calls = [RemoteUpdate workerName workerName script]"
proof -
  from update_success [OF assms(1)] obtain row where
    sel: "selectWorker db workerName i = Some row"
    and db': "db' = db\<lparr>workers := map (stampWorker (wid row) (CURRENT_TIMESTAMP env)) (workers db)\<rparr>"
    and calls: "calls = [RemoteUpdate workerName workerName script]"
    by blast
  from selectWorker_Some [OF sel] have mem: "row \<in> set (workers db)"
    and nm: "name row = workerName" "accountId row = i" by simp_all
  from assms(2) have d: "distinct (map wid (workers db))" by (simp add: primaryKey_def)
  have w: "workers db' = map (\<lambda>w. if w = row
                        then row\<lparr>modifiedOn := Some (CURRENT_TIMESTAMP env),
                                 lastSynced := CURRENT_TIMESTAMP env\<rparr>
                        else w) (workers db)"
    using stamp_single [OF d mem] by (simp add: db')
  have h: "map scriptHash (workers db') = map scriptHash (workers db)"
    by (simp add: db' scriptHash_stamp o_def)
  have a: "accounts db' = accounts db" by (simp add: db')
  from sel mem nm w h a calls show ?thesis by blast
qed

text \<open>Worker "api" of account A in the example, listed by the provider.\<close>

theorem update_stamps_single_row_witness:
  "primaryKey exampleDb
   \<and> updateWorkerScript (envOk [cfWorker ''api'']) exampleDb ''api'' ''A'' ''code''
       = (Inr (),
          exampleDb\<lparr>workers := [rowC, rowA\<lparr>modifiedOn := Some ''2024-02-01 00:00:00'',
                                            lastSynced := ''2024-02-01 00:00:00''\<rparr>]\<rparr>,
          [RemoteUpdate ''api'' ''api'' ''code''])
   \<and> map scriptHash
         (workers (exampleDb\<lparr>workers := [rowC, rowA\<lparr>modifiedOn := Some ''2024-02-01 00:00:00'',
                                            lastSynced := ''2024-02-01 00:00:00''\<rparr>]\<rparr>))
       = map scriptHash (workers exampleDb)
   \<and> accounts (exampleDb\<lparr>workers := [rowC, rowA\<lparr>modifiedOn := Some ''2024-02-01 00:00:00'',
                                            lastSynced := ''2024-02-01 00:00:00''\<rparr>]\<rparr>)
       = accounts exampleDb"
proof -
  have run: "updateWorkerScript (envOk [cfWorker ''api'']) exampleDb ''api'' ''A'' ''code''
      = (Inr (),
         exampleDb\<lparr>workers := [rowC, rowA\<lparr>modifiedOn := Some ''2024-02-01 00:00:00'',
                                           lastSynced := ''2024-02-01 00:00:00''\<rparr>]\<rparr>,
         [RemoteUpdate ''api'' ''api'' ''code''])"
    by (simp add: updateWorkerScript_def hasCfId_def stampWorker_def example_defs storage_defs)
  from update_stamps_single_row [OF run example_primaryKey]
  have "map scriptHash
         (workers (exampleDb\<lparr>workers := [rowC, rowA\<lparr>modifiedOn := Some ''2024-02-01 00:00:00'',
                                            lastSynced := ''2024-02-01 00:00:00''\<rparr>]\<rparr>))
       = map scriptHash (workers exampleDb)
     \<and> accounts (exampleDb\<lparr>workers := [rowC, rowA\<lparr>modifiedOn := Some ''2024-02-01 00:00:00'',
                                            lastSynced := ''2024-02-01 00:00:00''\<rparr>]\<rparr>)
       = accounts exampleDb"
    by blast
  with example_primaryKey run show ?thesis by simp
qed

section \<open>The primary key is an invariant\<close>

lemma insertLoop_distinct:
  "insertLoop i sub now gen k ws tbl = Inr tbl' \<Longrightarrow> distinct (map wid tbl)
     \<Longrightarrow> distinct (map wid tbl')"
proof (induction ws arbitrary: k tbl)
  case Nil
  then show ?case by simp
next
  case (Cons worker rest)
  from Cons.prems(1)
  have fresh: "wid (newRow (gen k) i sub now worker) \<notin> set (map wid tbl)"
    and tail: "insertLoop i sub now gen (Suc k) rest (tbl @ [newRow (gen k) i sub now worker])
      = Inr tbl'"
    by (auto simp: insertStmt_def split: if_splits)
  from fresh Cons.prems(2)
  have "distinct (map wid (tbl @ [newRow (gen k) i sub now worker]))" by simp
  from Cons.IH [OF tail this] show ?case .
qed

lemma primaryKey_syncAccountWorkers:
  assumes "primaryKey db"
  shows "primaryKey (snd (syncAccountWorkers env db i))"
proof -
  from assms have d: "distinct (map wid (deleteStmt i (workers db)))"
    by (simp add: primaryKey_def deleteStmt_def distinct_map_filter)
  with assms show ?thesis
    by (auto simp: syncAccountWorkers_def primaryKey_def transaction_def Let_def
        split: option.splits sum.splits prod.splits dest: insertLoop_distinct)
qed

lemma wid_stampWorker: "wid (stampWorker rowId now w) = wid w"
  by (simp add: stampWorker_def)

lemma primaryKey_updateWorkerScript:
  assumes "primaryKey db"
  shows "primaryKey (fst (snd (updateWorkerScript env db workerName i script)))"
  using assms
  by (auto simp: updateWorkerScript_def primaryKey_def wid_stampWorker comp_def
      split: option.splits sum.splits)

lemma primaryKey_deleteWorker:
  assumes "primaryKey db"
  shows "primaryKey (fst (snd (deleteWorker env db workerName i)))"
  using assms
  by (auto simp: deleteWorker_def primaryKey_def deleteRow_def distinct_map_filter
      split: option.splits sum.splits)

end
